theory Spec2Isabelle
  imports Complex_Main
begin

section \<open>JSON values as Python sees them\<close>

text \<open>
  Both \<^verbatim>\<open>app.py\<close> and \<^verbatim>\<open>fastapi_app.py\<close> work on the result of \<^verbatim>\<open>resp.json()\<close>: a Python
  value built from \<^verbatim>\<open>None\<close>, \<^verbatim>\<open>bool\<close>, \<^verbatim>\<open>int\<close>, \<^verbatim>\<open>float\<close>, \<^verbatim>\<open>str\<close>, \<^verbatim>\<open>list\<close> and \<^verbatim>\<open>dict\<close>.
  A dict is an association list in insertion order (its keys are distinct in Python);
  a lookup takes the first binding of a key. Of a float only the test against zero is
  ever observed by the code, so it is carried as a real number. Strings are byte lists.
\<close>

datatype json =
    JNull
  | JBool bool
  | JInt int
  | JFloat real
  | JStr string
  | JArr "json list"
  | JObj "(string \<times> json) list"

text \<open>Python truthiness (\<^verbatim>\<open>bool(x)\<close>), as used by \<^verbatim>\<open>or\<close>, \<^verbatim>\<open>not\<close> and \<^verbatim>\<open>if x:\<close>.\<close>

fun truthy :: "json \<Rightarrow> bool" where
  "truthy JNull = False"
| "truthy (JBool b) = b"
| "truthy (JInt n) = (n \<noteq> 0)"
| "truthy (JFloat x) = (x \<noteq> 0)"
| "truthy (JStr s) = (s \<noteq> [])"
| "truthy (JArr xs) = (xs \<noteq> [])"
| "truthy (JObj kvs) = (kvs \<noteq> [])"

text \<open>\<^verbatim>\<open>a or b\<close>: the left operand when it is truthy, the right operand otherwise.\<close>

definition py_or :: "json \<Rightarrow> json \<Rightarrow> json" where
  "py_or a b = (if truthy a then a else b)"

text \<open>\<^verbatim>\<open>obj.get(k)\<close>: the value bound to the key, \<^verbatim>\<open>None\<close> when the key is absent.\<close>

definition get :: "(string \<times> json) list \<Rightarrow> string \<Rightarrow> json" where
  "get obj k = (case map_of obj k of None \<Rightarrow> JNull | Some v \<Rightarrow> v)"

text \<open>
  \<^verbatim>\<open>str.lower()\<close> on the ASCII letters. The code compares the lowered status with
  \<^verbatim>\<open>"running"\<close> only, and no character outside ASCII lowers to one of its letters.
\<close>

definition lower_char :: "char \<Rightarrow> char" where
  "lower_char c =
     (let n = (of_char c :: nat) in if 65 \<le> n \<and> n \<le> 90 then char_of (n + 32) else c)"

definition lower :: "string \<Rightarrow> string" where
  "lower s = map lower_char s"

section \<open>The message extractor\<close>

text \<open>
  \<^verbatim>\<open>find_message\<close> is the same nested function in both source files
  (\<^verbatim>\<open>app.py\<close> lines 29-54, \<^verbatim>\<open>fastapi_app.py\<close> lines 44-74). It returns a \<^verbatim>\<open>str\<close> or \<^verbatim>\<open>None\<close>.
\<close>

definition candidate_keys :: "string list" where
  "candidate_keys = [''message'', ''messages'', ''content'', ''output'', ''text'', ''result'']"

text \<open>
  The loop \<^verbatim>\<open>for x in xs: candidate = f(x); if candidate: return candidate\<close>.
  \<open>Some s\<close> is the string the loop returned, \<open>None\<close> says the loop ran to its end.
  An empty string is falsy, so the loop does not return it.
\<close>

fun first_found :: "('a \<Rightarrow> string option) \<Rightarrow> 'a list \<Rightarrow> string option" where
  "first_found f [] = None"
| "first_found f (x # xs) =
     (case f x of
        Some s \<Rightarrow> if s \<noteq> [] then Some s else first_found f xs
      | None \<Rightarrow> first_found f xs)"

text \<open>
  The loop over the candidate keys: a key that is present with a string value returns
  that string at once (also the empty one); any other value is searched, and a non-empty
  result is returned.
\<close>

fun probe_keys ::
  "(json \<Rightarrow> string option) \<Rightarrow> (string \<times> json) list \<Rightarrow> string list \<Rightarrow> string option" where
  "probe_keys f obj [] = None"
| "probe_keys f obj (k # ks) =
     (case map_of obj k of
        None \<Rightarrow> probe_keys f obj ks
      | Some v \<Rightarrow>
          (case v of
             JStr s \<Rightarrow> Some s
           | _ \<Rightarrow>
               (case f v of
                  Some s \<Rightarrow> if s \<noteq> [] then Some s else probe_keys f obj ks
                | None \<Rightarrow> probe_keys f obj ks)))"

lemma first_found_cong [fundef_cong]:
  "xs = ys \<Longrightarrow> (\<And>x. x \<in> set ys \<Longrightarrow> f x = g x) \<Longrightarrow> first_found f xs = first_found g ys"
  by (induction xs arbitrary: ys) (auto split: option.splits)

lemma probe_keys_cong [fundef_cong]:
  "obj = obj' \<Longrightarrow> ks = ks' \<Longrightarrow> (\<And>v. v \<in> snd ` set obj' \<Longrightarrow> f v = g v)
     \<Longrightarrow> probe_keys f obj ks = probe_keys g obj' ks'"
proof (induction ks arbitrary: ks')
  case Nil
  then show ?case by simp
next
  case (Cons k ks)
  have "\<And>v. map_of obj' k = Some v \<Longrightarrow> f v = g v"
    using Cons.prems(3) by (metis map_of_SomeD image_eqI snd_conv)
  moreover have "probe_keys f obj ks = probe_keys g obj' ks"
    using Cons.IH [OF Cons.prems(1) refl Cons.prems(3)] by simp
  ultimately show ?case
    using Cons.prems(1,2) by (auto split: option.splits json.splits)
qed

lemma size_value_less: "(k, v) \<in> set obj \<Longrightarrow> size v < size (JObj obj)"
  by (induction obj) auto

lemma size_item_less: "x \<in> set xs \<Longrightarrow> size x < size (JArr xs)"
  by (induction xs) auto

lemma get_in_values: "get obj k = v \<Longrightarrow> v \<noteq> JNull \<Longrightarrow> v \<in> snd ` set obj"
  by (auto simp: get_def split: option.splits dest!: map_of_SomeD intro: rev_image_eqI)

lemma content_in_values:
  assumes "v = py_or (py_or (get obj a) (get obj b)) (get obj c)" and "v \<noteq> JNull"
  shows "v \<in> snd ` set obj"
proof -
  from assms(1) obtain k where "get obj k = v"
    by (auto simp: py_or_def split: if_splits)
  then show ?thesis using assms(2) by (rule get_in_values)
qed

text \<open>
  The first stage (the \<^verbatim>\<open>role == "assistant"\<close> block) either returns, written
  \<open>Some r\<close> with \<open>r\<close> the returned value, or falls through to the two loops, written
  \<open>None\<close>.
\<close>

function (sequential) find_message :: "json \<Rightarrow> string option" where
  "find_message (JObj obj) =
     (case (if get obj ''role'' = JStr ''assistant'' then
              (let content =
                     py_or (py_or (get obj ''content'') (get obj ''message'')) (get obj ''text'')
               in case content of
                    JStr s \<Rightarrow> Some (Some s)
                  | JObj _ \<Rightarrow> Some (find_message content)
                  | JArr _ \<Rightarrow> Some (find_message content)
                  | _ \<Rightarrow> None)
            else None) of
        Some r \<Rightarrow> r
      | None \<Rightarrow>
          (case probe_keys find_message obj candidate_keys of
             Some s \<Rightarrow> Some s
           | None \<Rightarrow> first_found find_message (map snd obj)))"
| "find_message (JArr xs) = first_found find_message xs"
| "find_message _ = None"
  by pat_completeness auto

termination
proof (relation "measure size", goal_cases)
  case 1
  show ?case by simp
next
  case (2 obj x x6)
  have "x \<in> snd ` set obj"
    using 2(2) by (rule content_in_values) (simp add: 2(3))
  then show ?case by (auto dest: size_value_less)
next
  case (3 obj x x7)
  have "x \<in> snd ` set obj"
    using 3(2) by (rule content_in_values) (simp add: 3(3))
  then show ?case by (auto dest: size_value_less)
next
  case (4 obj v)
  then show ?case by (auto dest: size_value_less)
next
  case (5 obj x)
  then show ?case by (auto dest: size_value_less)
next
  case (6 xs x)
  then show ?case by (auto dest: size_item_less)
qed

definition extract_agent_message_from_run :: "json \<Rightarrow> string option" where
  "extract_agent_message_from_run run_json = find_message run_json"

text \<open>
  The two loops of the dict branch (\<^verbatim>\<open>app.py\<close> lines 37-48), which run when the
  \<^verbatim>\<open>role == "assistant"\<close> block did not return.
\<close>

definition fall_through :: "(string \<times> json) list \<Rightarrow> string option" where
  "fall_through obj =
     (case probe_keys find_message obj candidate_keys of
        Some s \<Rightarrow> Some s
      | None \<Rightarrow> first_found find_message (map snd obj))"

subsection \<open>The extractor with a bound on the recursion depth\<close>

text \<open>
  The same function with the depth of the recursion counted: every call of
  \<^verbatim>\<open>find_message\<close> spends one unit, and \<open>None\<close> says that the units ran out before
  the call returned. \<open>Some r\<close> is the call returning \<open>r\<close>.
\<close>

fun first_found_fuel ::
  "('a \<Rightarrow> string option option) \<Rightarrow> 'a list \<Rightarrow> string option option" where
  "first_found_fuel f [] = Some None"
| "first_found_fuel f (x # xs) =
     (case f x of
        None \<Rightarrow> None
      | Some (Some s) \<Rightarrow> if s \<noteq> [] then Some (Some s) else first_found_fuel f xs
      | Some None \<Rightarrow> first_found_fuel f xs)"

fun probe_keys_fuel ::
  "(json \<Rightarrow> string option option) \<Rightarrow> (string \<times> json) list \<Rightarrow> string list
     \<Rightarrow> string option option" where
  "probe_keys_fuel f obj [] = Some None"
| "probe_keys_fuel f obj (k # ks) =
     (case map_of obj k of
        None \<Rightarrow> probe_keys_fuel f obj ks
      | Some v \<Rightarrow>
          (case v of
             JStr s \<Rightarrow> Some (Some s)
           | _ \<Rightarrow>
               (case f v of
                  None \<Rightarrow> None
                | Some (Some s) \<Rightarrow>
                    if s \<noteq> [] then Some (Some s) else probe_keys_fuel f obj ks
                | Some None \<Rightarrow> probe_keys_fuel f obj ks)))"

fun find_message_fuel :: "nat \<Rightarrow> json \<Rightarrow> string option option" where
  "find_message_fuel 0 v = None"
| "find_message_fuel (Suc n) (JObj obj) =
     (case (if get obj ''role'' = JStr ''assistant'' then
              (let content =
                     py_or (py_or (get obj ''content'') (get obj ''message'')) (get obj ''text'')
               in case content of
                    JStr s \<Rightarrow> Some (Some (Some s))
                  | JObj _ \<Rightarrow> Some (find_message_fuel n content)
                  | JArr _ \<Rightarrow> Some (find_message_fuel n content)
                  | _ \<Rightarrow> None)
            else None) of
        Some r \<Rightarrow> r
      | None \<Rightarrow>
          (case probe_keys_fuel (find_message_fuel n) obj candidate_keys of
             None \<Rightarrow> None
           | Some (Some s) \<Rightarrow> Some (Some s)
           | Some None \<Rightarrow> first_found_fuel (find_message_fuel n) (map snd obj)))"
| "find_message_fuel (Suc n) (JArr xs) = first_found_fuel (find_message_fuel n) xs"
| "find_message_fuel (Suc n) _ = Some None"

subsection \<open>Notions of the specification\<close>

text \<open>
  The specification speaks of the first field that is \<^emph>\<open>present\<close> among an ordered
  list of names; the code's \<^verbatim>\<open>or\<close> chain finds the first field whose value is
  \<^emph>\<open>truthy\<close>. Both readings, as the words say them:
\<close>

fun first_present :: "(string \<times> json) list \<Rightarrow> string list \<Rightarrow> json option" where
  "first_present obj [] = None"
| "first_present obj (k # ks) =
     (case map_of obj k of Some v \<Rightarrow> Some v | None \<Rightarrow> first_present obj ks)"

fun first_truthy :: "(string \<times> json) list \<Rightarrow> string list \<Rightarrow> json option" where
  "first_truthy obj [] = None"
| "first_truthy obj (k # ks) =
     (if truthy (get obj k) then Some (get obj k) else first_truthy obj ks)"

text \<open>
  A value with no object whose \<^verbatim>\<open>role\<close> is \<^verbatim>\<open>"assistant"\<close> and no object holding a
  candidate key, anywhere in its nested structure.
\<close>

fun hint_free :: "json \<Rightarrow> bool" where
  "hint_free (JObj obj) =
     (get obj ''role'' \<noteq> JStr ''assistant'' \<and>
      (\<forall>k \<in> set candidate_keys. map_of obj k = None) \<and>
      (\<forall>v \<in> set (map snd obj). hint_free v))"
| "hint_free (JArr xs) = (\<forall>x \<in> set xs. hint_free x)"
| "hint_free _ = True"

section \<open>HTTP responses and errors\<close>

text \<open>
  What the code reads of an \<^verbatim>\<open>httpx\<close> response: \<^verbatim>\<open>status_code\<close>, \<^verbatim>\<open>text\<close> and
  \<^verbatim>\<open>json()\<close>; \<open>resp_json = None\<close> is a body that does not parse, where \<^verbatim>\<open>json()\<close> raises.
  The remote services are parameters: a function from the request to the response.
  Request headers are not modelled; no outcome below depends on them.
\<close>

record response =
  resp_status :: int
  resp_text :: string
  resp_json :: "json option"

text \<open>
  The exceptions the modelled code can raise. \<^verbatim>\<open>AttributeError\<close> is \<^verbatim>\<open>.get\<close> on a JSON
  value that is not a dict, \<^verbatim>\<open>ValueError\<close> is \<^verbatim>\<open>time.sleep\<close> of a negative length.
\<close>

datatype error =
    HTTPStatusError int
  | HTTPException int string
  | JSONDecodeError
  | AttributeError
  | ValueError

text \<open>\<^verbatim>\<open>raise_for_status()\<close> of \<^verbatim>\<open>httpx\<close> raises unless the status is 2xx.\<close>

definition is_success :: "response \<Rightarrow> bool" where
  "is_success resp = (200 \<le> resp_status resp \<and> resp_status resp \<le> 299)"

section \<open>The token provider\<close>

text \<open>
  \<^verbatim>\<open>get_bearer_token_sync\<close> (\<^verbatim>\<open>app.py\<close> lines 16-25) and \<^verbatim>\<open>get_bearer_token\<close>
  (\<^verbatim>\<open>fastapi_app.py\<close> lines 19-35). \<open>post\<close> is the identity endpoint: the response to the
  request that carries the given API key.
\<close>

definition get_bearer_token_sync :: "(string \<Rightarrow> response) \<Rightarrow> string \<Rightarrow> error + json" where
  "get_bearer_token_sync post api_key =
     (let resp = post api_key in
      if \<not> is_success resp then Inl (HTTPStatusError (resp_status resp))
      else case resp_json resp of
             None \<Rightarrow> Inl JSONDecodeError
           | Some (JObj obj) \<Rightarrow> Inr (get obj ''access_token'')
           | Some _ \<Rightarrow> Inl AttributeError)"

definition get_bearer_token :: "(string \<Rightarrow> response) \<Rightarrow> string \<Rightarrow> error + json" where
  "get_bearer_token post api_key =
     (let response = post api_key in
      if resp_status response = 200 then
        (case resp_json response of
           None \<Rightarrow> Inl JSONDecodeError
         | Some (JObj obj) \<Rightarrow> Inr (get obj ''access_token'')
         | Some _ \<Rightarrow> Inl AttributeError)
      else Inl (HTTPException (resp_status response) ''Could not generate IAM token''))"

section \<open>The run poller\<close>

text \<open>
  The three shapes of the returned pair:
  \<^item> \<open>Extracted message run_json\<close> is \<^verbatim>\<open>(message, run_json)\<close>;
  \<^item> \<open>TransportFailure status_code detail\<close> is
    \<^verbatim>\<open>(None, {"error": True, "status_code": ..., "detail": resp.text})\<close>;
  \<^item> \<open>TimedOut run_id max_wait_seconds last_run\<close> is
    \<^verbatim>\<open>(None, {"error": True, "status": "timeout", "detail": ..., "last_run": run_json})\<close>,
    whose detail text is built from the run id and the maximum wait.
\<close>

datatype poll_return =
    Extracted "string option" json
  | TransportFailure int string
  | TimedOut json real json

text \<open>
  The status of a run body: \<^verbatim>\<open>app.py\<close> lines 69-73 (lowered when it is a string) and
  \<^verbatim>\<open>fastapi_app.py\<close> lines 94-96 (not lowered here; line 99 lowers it in the comparison).
\<close>

definition run_status_sync :: "json \<Rightarrow> json" where
  "run_status_sync run_json =
     (case run_json of
        JObj obj \<Rightarrow>
          (let status =
                 py_or (py_or (get obj ''status'') (get obj ''state'')) (get obj ''run_status'')
           in case status of JStr s \<Rightarrow> JStr (lower s) | _ \<Rightarrow> status)
      | _ \<Rightarrow> JNull)"

definition run_status :: "json \<Rightarrow> json" where
  "run_status run_json =
     (case run_json of
        JObj obj \<Rightarrow>
          py_or (py_or (get obj ''status'') (get obj ''state'')) (get obj ''run_status'')
      | _ \<Rightarrow> JNull)"

text \<open>
  The \<^verbatim>\<open>while True\<close> loops. \<open>http_get i\<close> is the response to the \<open>i\<close>-th status request,
  counted from 0; one request is made per iteration, so the number of sleeps so far is
  also the index of the next request. Time is a real number. The result is the returned
  pair or the raised exception, together with the number of sleeps; \<open>None\<close> is a loop
  that never returns.
\<close>

partial_function (option) poll_sync ::
  "(nat \<Rightarrow> response) \<Rightarrow> json \<Rightarrow> real \<Rightarrow> real \<Rightarrow> nat \<Rightarrow> real
     \<Rightarrow> ((error + poll_return) \<times> nat) option" where
  "poll_sync http_get run_id max_wait_seconds poll_interval sleeps elapsed =
     (let resp = http_get sleeps in
      if resp_status resp \<noteq> 200 then
        Some (Inr (TransportFailure (resp_status resp) (resp_text resp)), sleeps)
      else
        (case resp_json resp of
           None \<Rightarrow> Some (Inl JSONDecodeError, sleeps)
         | Some run_json \<Rightarrow>
             (let status = run_status_sync run_json in
              if \<not> truthy status \<or> status \<noteq> JStr ''running'' then
                Some (Inr (Extracted (extract_agent_message_from_run run_json) run_json), sleeps)
              else if elapsed \<ge> max_wait_seconds then
                Some (Inr (TimedOut run_id max_wait_seconds run_json), sleeps)
              else if poll_interval < 0 then Some (Inl ValueError, sleeps)
              else poll_sync http_get run_id max_wait_seconds poll_interval
                     (Suc sleeps) (elapsed + poll_interval))))"

declare poll_sync.simps [code]

partial_function (option) poll_async ::
  "(nat \<Rightarrow> response) \<Rightarrow> json \<Rightarrow> real \<Rightarrow> real \<Rightarrow> nat \<Rightarrow> real
     \<Rightarrow> ((error + poll_return) \<times> nat) option" where
  "poll_async http_get run_id max_wait_seconds poll_interval sleeps elapsed =
     (let resp = http_get sleeps in
      if resp_status resp \<noteq> 200 then
        Some (Inr (TransportFailure (resp_status resp) (resp_text resp)), sleeps)
      else
        (case resp_json resp of
           None \<Rightarrow> Some (Inl JSONDecodeError, sleeps)
         | Some run_json \<Rightarrow>
             (let status = run_status run_json in
              if \<not> truthy status \<or>
                 (case status of JStr s \<Rightarrow> lower s \<noteq> ''running'' | _ \<Rightarrow> False) then
                Some (Inr (Extracted (extract_agent_message_from_run run_json) run_json), sleeps)
              else if elapsed \<ge> max_wait_seconds then
                Some (Inr (TimedOut run_id max_wait_seconds run_json), sleeps)
              else poll_async http_get run_id max_wait_seconds poll_interval
                     (Suc sleeps) (elapsed + poll_interval))))"

declare poll_async.simps [code]

text \<open>
  \<^verbatim>\<open>fetch_run_and_extract_message_sync\<close> (\<^verbatim>\<open>app.py\<close> lines 59-82) and
  \<^verbatim>\<open>_fetch_run_and_extract_message\<close> (\<^verbatim>\<open>fastapi_app.py\<close> lines 79-113) enter their loop
  with \<^verbatim>\<open>elapsed = 0.0\<close>.
\<close>

definition fetch_run_and_extract_message_sync ::
  "(nat \<Rightarrow> response) \<Rightarrow> json \<Rightarrow> real \<Rightarrow> real \<Rightarrow> ((error + poll_return) \<times> nat) option" where
  "fetch_run_and_extract_message_sync http_get run_id max_wait_seconds poll_interval =
     poll_sync http_get run_id max_wait_seconds poll_interval 0 0"

definition fetch_run_and_extract_message ::
  "(nat \<Rightarrow> response) \<Rightarrow> json \<Rightarrow> real \<Rightarrow> real \<Rightarrow> ((error + poll_return) \<times> nat) option" where
  "fetch_run_and_extract_message http_get run_id max_wait_seconds poll_interval =
     poll_async http_get run_id max_wait_seconds poll_interval 0 0"

text \<open>
  The test of \<^verbatim>\<open>fastapi_app.py\<close> line 99, negated: the status with which that loop goes on.
\<close>

definition still_running :: "json \<Rightarrow> bool" where
  "still_running status =
     (\<not> (\<not> truthy status \<or> (case status of JStr s \<Rightarrow> lower s \<noteq> ''running'' | _ \<Rightarrow> False)))"

section \<open>The run launcher and the interactive session\<close>

text \<open>
  \<^verbatim>\<open>str.strip()\<close> on the ASCII white space (\<^verbatim>\<open>str.isspace\<close>: codes 9-13 and 28-32).
\<close>

definition is_space :: "char \<Rightarrow> bool" where
  "is_space c =
     (let n = (of_char c :: nat) in (9 \<le> n \<and> n \<le> 13) \<or> (28 \<le> n \<and> n \<le> 32))"

definition strip :: "string \<Rightarrow> string" where
  "strip s = rev (dropWhile is_space (rev (dropWhile is_space s)))"

record config =
  IAM_API_KEY :: string
  DEFAULT_AGENT_ID :: string

text \<open>
  \<^verbatim>\<open>start_orchestrate_run_sync\<close> (\<^verbatim>\<open>app.py\<close> lines 85-99). \<open>post token payload\<close> is the
  response of the run-creation endpoint. The request body that was sent is returned
  beside the outcome, so that the requests of a conversation can be observed.
\<close>

definition start_orchestrate_run_sync ::
  "(json \<Rightarrow> json \<Rightarrow> response) \<Rightarrow> string \<Rightarrow> string \<Rightarrow> json \<Rightarrow> json
     \<Rightarrow> json \<times> (error + json)" where
  "start_orchestrate_run_sync post message agent_id thread_id token =
     (let payload =
            JObj ([(''message'', JObj [(''role'', JStr ''user''), (''content'', JStr message)]),
                   (''agent_id'', JStr agent_id)]
                  @ (if truthy thread_id then [(''thread_id'', thread_id)] else []));
          resp = post token payload
      in (payload,
          if \<not> is_success resp then Inl (HTTPStatusError (resp_status resp))
          else case resp_json resp of None \<Rightarrow> Inl JSONDecodeError | Some j \<Rightarrow> Inr j))"

record interaction =
  ia_timestamp :: string
  ia_thread_id :: json
  ia_run_id :: json
  ia_user_message :: string
  ia_agent_message :: "string option"

text \<open>\<^verbatim>\<open>st.session_state\<close>, with the four entries the script initialises (lines 109-114).\<close>

record session_state =
  history :: "interaction list"
  thread_id :: json
  message_input :: string
  last_error :: string

text \<open>What one send meets outside the program: the three endpoints and the clock.\<close>

record world =
  identity_post :: "string \<Rightarrow> response"
  runs_post :: "json \<Rightarrow> json \<Rightarrow> response"
  runs_get :: "nat \<Rightarrow> response"
  utcnow :: string

text \<open>
  The outcome of one send: the exception that left the callback (if any), the request
  body of the launch (if one was made), and the session state afterwards.
\<close>

record send_result =
  raised :: "error option"
  launched :: "json option"
  state :: session_state

text \<open>The first component of the pair the poller returns.\<close>

fun returned_message :: "poll_return \<Rightarrow> string option" where
  "returned_message (Extracted message run_json) = message"
| "returned_message (TransportFailure status_code detail) = None"
| "returned_message (TimedOut run_id max_wait_seconds last_run) = None"

text \<open>
  \<^verbatim>\<open>_send_callback\<close> (\<^verbatim>\<open>app.py\<close> lines 142-179). Both \<^verbatim>\<open>try\<close> blocks catch every
  exception; what is raised after them leaves the callback. \<open>None\<close> is a poll that
  never returns.
\<close>

definition send_callback :: "config \<Rightarrow> world \<Rightarrow> session_state \<Rightarrow> send_result option" where
  "send_callback cfg w st =
     (let msg = strip (message_input st) in
      if msg = [] then
        Some \<lparr>raised = None, launched = None,
              state = st\<lparr>last_error := ''Please enter a message.''\<rparr>\<rparr>
      else
        (case get_bearer_token_sync (identity_post w) (IAM_API_KEY cfg) of
           Inl e \<Rightarrow>
             Some \<lparr>raised = None, launched = None,
                   state = st\<lparr>last_error := ''Failed to obtain IAM token.''\<rparr>\<rparr>
         | Inr token \<Rightarrow>
             (case start_orchestrate_run_sync (runs_post w) msg (DEFAULT_AGENT_ID cfg)
                     (thread_id st) token of
                (payload, Inl e) \<Rightarrow>
                  Some \<lparr>raised = None, launched = Some payload,
                        state = st\<lparr>last_error := ''Failed to start run.''\<rparr>\<rparr>
              | (payload, Inr orchestrate_resp) \<Rightarrow>
                  (case orchestrate_resp of
                     JObj r \<Rightarrow>
                       (let returned_thread_id = py_or (get r ''thread_id'') (get r ''threadId'');
                            st1 = (if truthy returned_thread_id \<and> \<not> truthy (thread_id st)
                                   then st\<lparr>thread_id := returned_thread_id\<rparr> else st);
                            run_id = py_or (get r ''run_id'') (get r ''runId'')
                        in case (if truthy run_id then
                                   (case fetch_run_and_extract_message_sync
                                           (runs_get w) run_id 5 0.5 of
                                      None \<Rightarrow> None
                                    | Some (Inl e, sleeps) \<Rightarrow> Some (Inl e)
                                    | Some (Inr ret, sleeps) \<Rightarrow> Some (Inr (returned_message ret)))
                                 else Some (Inr None)) of
                             None \<Rightarrow> None
                           | Some (Inl e) \<Rightarrow>
                               Some \<lparr>raised = Some e, launched = Some payload, state = st1\<rparr>
                           | Some (Inr agent_message) \<Rightarrow>
                               Some \<lparr>raised = None, launched = Some payload,
                                     state = st1\<lparr>history := history st1 @
                                         [\<lparr>ia_timestamp = utcnow w @ ''Z'',
                                           ia_thread_id = thread_id st1,
                                           ia_run_id = run_id,
                                           ia_user_message = msg,
                                           ia_agent_message = agent_message\<rparr>],
                                       message_input := ''''\<rparr>\<rparr>)
                   | _ \<Rightarrow>
                       Some \<lparr>raised = Some AttributeError, launched = Some payload,
                             state = st\<rparr>))))"

text \<open>
  A conversation: a sequence of sends against the same session state. Before each send
  the text area stores what the user typed under \<^verbatim>\<open>message_input\<close>; after it the script
  runs again and clears \<^verbatim>\<open>last_error\<close> (lines 121-123). The result lists the launch
  requests that were sent, in order, and gives the final state.
\<close>

record turn =
  typed :: string
  env :: world

fun conversation ::
  "config \<Rightarrow> turn list \<Rightarrow> session_state \<Rightarrow> (json list \<times> session_state) option" where
  "conversation cfg [] st = Some ([], st)"
| "conversation cfg (t # ts) st =
     (case send_callback cfg (env t) (st\<lparr>message_input := typed t\<rparr>) of
        None \<Rightarrow> None
      | Some res \<Rightarrow>
          (case conversation cfg ts ((state res)\<lparr>last_error := ''''\<rparr>) of
             None \<Rightarrow> None
           | Some (sent, st') \<Rightarrow>
               Some ((case launched res of None \<Rightarrow> [] | Some p \<Rightarrow> [p]) @ sent, st')))"

text \<open>A launch request body that names the given thread.\<close>

definition carries_thread :: "json \<Rightarrow> json \<Rightarrow> bool" where
  "carries_thread tid payload =
     (case payload of JObj obj \<Rightarrow> map_of obj ''thread_id'' = Some tid | _ \<Rightarrow> False)"

section \<open>Example inputs\<close>

text \<open>
  A response with status 200 and the given JSON body (its text is not read by the code),
  and an endpoint that answers the \<open>i\<close>-th request with the \<open>i\<close>-th response of a list,
  and with status 503 once the list is used up.
\<close>

definition ok_response :: "json \<Rightarrow> response" where
  "ok_response body = \<lparr>resp_status = 200, resp_text = [], resp_json = Some body\<rparr>"

definition script :: "response list \<Rightarrow> nat \<Rightarrow> response" where
  "script rs i =
     (if i < length rs then rs ! i
      else \<lparr>resp_status = 503, resp_text = ''unavailable'', resp_json = None\<rparr>)"

definition empty_object_endpoint :: "string \<Rightarrow> response" where
  "empty_object_endpoint api_key = ok_response (JObj [])"

definition denying_endpoint :: "string \<Rightarrow> response" where
  "denying_endpoint api_key =
     \<lparr>resp_status = 401, resp_text = ''unauthorized'', resp_json = None\<rparr>"

definition granting_endpoint :: "string \<Rightarrow> response" where
  "granting_endpoint api_key = ok_response (JObj [(''access_token'', JStr ''tok'')])"

definition other_thread_endpoint :: "json \<Rightarrow> json \<Rightarrow> response" where
  "other_thread_endpoint token payload =
     ok_response (JObj [(''thread_id'', JStr ''t2''), (''run_id'', JStr ''r1'')])"

definition example_world :: world where
  "example_world =
     \<lparr>identity_post = granting_endpoint,
      runs_post = other_thread_endpoint,
      runs_get = script [ok_response (JObj [(''status'', JStr ''completed''),
                                            (''message'', JStr ''hello'')])],
      utcnow = ''2024-01-01T00:00:00''\<rparr>"

definition example_config :: config where
  "example_config = \<lparr>IAM_API_KEY = ''key'', DEFAULT_AGENT_ID = ''agent''\<rparr>"

definition example_session :: session_state where
  "example_session =
     \<lparr>history = [], thread_id = JStr ''t1'', message_input = [], last_error = []\<rparr>"

definition example_turn :: turn where
  "example_turn = \<lparr>typed = ''hi'', env = example_world\<rparr>"

section \<open>The extractor: auxiliary facts\<close>

lemma first_found_None: "(\<And>x. x \<in> set xs \<Longrightarrow> f x = None) \<Longrightarrow> first_found f xs = None"
  by (induction xs) auto

lemma probe_keys_absent:
  "(\<And>k. k \<in> set ks \<Longrightarrow> map_of obj k = None) \<Longrightarrow> probe_keys f obj ks = None"
  by (induction ks) auto

lemma find_message_object:
  "find_message (JObj obj) =
     (if get obj ''role'' = JStr ''assistant'' then
        (let content =
               py_or (py_or (get obj ''content'') (get obj ''message'')) (get obj ''text'')
         in case content of
              JStr s \<Rightarrow> Some s
            | JObj _ \<Rightarrow> find_message content
            | JArr _ \<Rightarrow> find_message content
            | _ \<Rightarrow> fall_through obj)
      else fall_through obj)"
  by (simp add: fall_through_def Let_def split: json.splits)

lemma first_truthy_chain:
  "first_truthy obj [a, b, c] = Some v \<Longrightarrow> py_or (py_or (get obj a) (get obj b)) (get obj c) = v"
  by (auto simp: py_or_def split: if_splits)

lemma first_found_fuel_total:
  "(\<And>x. x \<in> set xs \<Longrightarrow> g x = Some (f x)) \<Longrightarrow> first_found_fuel g xs = Some (first_found f xs)"
  by (induction xs) (auto split: option.splits)

lemma probe_keys_fuel_total:
  "(\<And>v. v \<in> snd ` set obj \<Longrightarrow> g v = Some (f v))
     \<Longrightarrow> probe_keys_fuel g obj ks = Some (probe_keys f obj ks)"
proof (induction ks)
  case Nil
  then show ?case by simp
next
  case (Cons k ks)
  have "\<And>v. map_of obj k = Some v \<Longrightarrow> g v = Some (f v)"
    using Cons.prems by (metis map_of_SomeD image_eqI snd_conv)
  then show ?case
    using Cons.IH [OF Cons.prems] by (auto split: option.splits json.splits)
qed

lemma find_message_fuel_enough:
  "size v < n \<Longrightarrow> find_message_fuel n v = Some (find_message v)"
proof (induction n arbitrary: v)
  case 0
  then show ?case by simp
next
  case (Suc n)
  show ?case
  proof (cases v)
    case (JArr xs)
    have "\<And>x. x \<in> set xs \<Longrightarrow> find_message_fuel n x = Some (find_message x)"
      using Suc.prems JArr by (intro Suc.IH) (auto dest: size_item_less)
    then show ?thesis
      using JArr by (simp add: first_found_fuel_total)
  next
    case (JObj obj)
    have vals: "\<And>x. x \<in> snd ` set obj \<Longrightarrow> find_message_fuel n x = Some (find_message x)"
      using Suc.prems JObj by (intro Suc.IH) (auto dest: size_value_less)
    have loops:
      "(case probe_keys_fuel (find_message_fuel n) obj candidate_keys of
          None \<Rightarrow> None
        | Some (Some s) \<Rightarrow> Some (Some s)
        | Some None \<Rightarrow> first_found_fuel (find_message_fuel n) (map snd obj))
       = Some (case probe_keys find_message obj candidate_keys of
                 Some s \<Rightarrow> Some s
               | None \<Rightarrow> first_found find_message (map snd obj))"
    proof -
      have p: "probe_keys_fuel (find_message_fuel n) obj candidate_keys
                 = Some (probe_keys find_message obj candidate_keys)"
        using vals by (rule probe_keys_fuel_total)
      have f: "first_found_fuel (find_message_fuel n) (map snd obj)
                 = Some (first_found find_message (map snd obj))"
        by (rule first_found_fuel_total) (simp add: vals)
      show ?thesis unfolding p f by (simp split: option.splits)
    qed
    have content: "find_message_fuel n c = Some (find_message c)"
      if "c = py_or (py_or (get obj ''content'') (get obj ''message'')) (get obj ''text'')"
        and "c \<noteq> JNull" for c
      using content_in_values [OF that] by (rule vals)
    show ?thesis
      unfolding JObj find_message_fuel.simps find_message.simps loops
      by (auto simp: Let_def content split: json.splits)
  qed simp_all
qed

section \<open>The poller: one iteration\<close>

lemma lower_running: "lower ''running'' = ''running''"
  by code_simp

lemma lower_Running: "lower ''Running'' = ''running''"
  by code_simp

lemma lower_RUNNING: "lower ''RUNNING'' = ''running''"
  by code_simp

lemma lower_completed: "lower ''completed'' = ''completed''"
  by code_simp

lemma lower_Done: "lower ''Done'' = ''done''"
  by code_simp

lemma poll_sync_terminal:
  assumes "resp_status (http_get n) = 200" and "resp_json (http_get n) = Some body"
    and "run_status_sync body \<noteq> JStr ''running''"
  shows "poll_sync http_get run_id max_wait p n elapsed
           = Some (Inr (Extracted (extract_agent_message_from_run body) body), n)"
  using assms by (subst poll_sync.simps) simp

lemma poll_sync_continue:
  assumes "resp_status (http_get n) = 200" and "resp_json (http_get n) = Some body"
    and "run_status_sync body = JStr ''running''" and "elapsed < max_wait" and "0 \<le> p"
  shows "poll_sync http_get run_id max_wait p n elapsed
           = poll_sync http_get run_id max_wait p (Suc n) (elapsed + p)"
  using assms by (subst poll_sync.simps) simp

lemma poll_sync_timeout:
  assumes "resp_status (http_get n) = 200" and "resp_json (http_get n) = Some body"
    and "run_status_sync body = JStr ''running''" and "max_wait \<le> elapsed"
  shows "poll_sync http_get run_id max_wait p n elapsed
           = Some (Inr (TimedOut run_id max_wait body), n)"
  using assms by (subst poll_sync.simps) simp

lemma poll_async_terminal:
  assumes "resp_status (http_get n) = 200" and "resp_json (http_get n) = Some body"
    and "\<not> still_running (run_status body)"
  shows "poll_async http_get run_id max_wait p n elapsed
           = Some (Inr (Extracted (extract_agent_message_from_run body) body), n)"
  using assms by (subst poll_async.simps) (auto simp: still_running_def)

lemma poll_async_continue:
  assumes "resp_status (http_get n) = 200" and "resp_json (http_get n) = Some body"
    and "still_running (run_status body)" and "elapsed < max_wait"
  shows "poll_async http_get run_id max_wait p n elapsed
           = poll_async http_get run_id max_wait p (Suc n) (elapsed + p)"
  using assms by (subst poll_async.simps) (auto simp: still_running_def)

lemma poll_async_timeout:
  assumes "resp_status (http_get n) = 200" and "resp_json (http_get n) = Some body"
    and "still_running (run_status body)" and "max_wait \<le> elapsed"
  shows "poll_async http_get run_id max_wait p n elapsed
           = Some (Inr (TimedOut run_id max_wait body), n)"
  using assms by (subst poll_async.simps) (auto simp: still_running_def)

text \<open>With a positive poll interval the loop of \<^verbatim>\<open>app.py\<close> returns.\<close>

lemma poll_sync_returns_within:
  assumes "0 < p"
  shows "max_wait - elapsed \<le> real k * p \<Longrightarrow> \<exists>r. poll_sync g rid max_wait p n elapsed = Some r"
proof (induction k arbitrary: n elapsed)
  case 0
  then have "max_wait \<le> elapsed" by simp
  then show ?case by (subst poll_sync.simps) (simp add: Let_def split: option.splits)
next
  case (Suc k)
  have "max_wait - (elapsed + p) \<le> real k * p"
    using Suc.prems by (simp add: algebra_simps)
  from Suc.IH [OF this]
  obtain r where "poll_sync g rid max_wait p (Suc n) (elapsed + p) = Some r" ..
  then show ?case by (subst poll_sync.simps) (simp add: Let_def split: option.splits)
qed

lemma poll_sync_returns:
  assumes "0 < p"
  shows "\<exists>r. poll_sync g rid max_wait p n elapsed = Some r"
proof -
  obtain k :: nat where "(max_wait - elapsed) / p \<le> real k"
    using real_arch_simple by blast
  then have "max_wait - elapsed \<le> real k * p"
    using assms by (simp add: pos_divide_le_eq)
  then show ?thesis by (rule poll_sync_returns_within [OF assms])
qed

text \<open>
  In \<^verbatim>\<open>app.py\<close> a fetched body whose status is not \<^verbatim>\<open>"running"\<close> ends the loop
  (\<open>poll_sync_terminal\<close>), and only the status \<^verbatim>\<open>"running"\<close> goes on to the timeout
  test and the sleep:
\<close>

lemma poll_sync_running:
  assumes "resp_status (http_get n) = 200" and "resp_json (http_get n) = Some body"
    and "run_status_sync body = JStr ''running''"
  shows "poll_sync http_get run_id max_wait p n elapsed =
           (if max_wait \<le> elapsed then Some (Inr (TimedOut run_id max_wait body), n)
            else if p < 0 then Some (Inl ValueError, n)
            else poll_sync http_get run_id max_wait p (Suc n) (elapsed + p))"
  using assms by (subst poll_sync.simps) simp

section \<open>The token provider\<close>

text \<open>
  C1 (as stated): obtaining a token fails with an error whenever the identity endpoint
  answers with a non-success status, and also whenever it answers with a success status
  and a JSON body without an access-token field. The second half does not hold: for a
  200 response whose body is the empty object both functions return normally, with
  \<^verbatim>\<open>None\<close> as the token.
\<close>

theorem token_missing_field_counterexample:
  "is_success (empty_object_endpoint ''key'')
   \<and> resp_json (empty_object_endpoint ''key'') = Some (JObj [])
   \<and> get_bearer_token_sync empty_object_endpoint ''key'' = Inr JNull
   \<and> get_bearer_token empty_object_endpoint ''key'' = Inr JNull"
  by (simp add: empty_object_endpoint_def ok_response_def is_success_def
      get_bearer_token_sync_def get_bearer_token_def get_def)

text \<open>
  C1 (amended): for every credential, a non-success status of the identity endpoint makes
  both token functions fail with an error that carries the status; a 200 response whose
  JSON body is an object without an \<^verbatim>\<open>access_token\<close> field makes both return normally,
  with \<^verbatim>\<open>None\<close> in place of the token.
\<close>

theorem token_error_or_null:
  "(\<not> is_success (post api_key) \<longrightarrow>
      get_bearer_token_sync post api_key = Inl (HTTPStatusError (resp_status (post api_key))) \<and>
      get_bearer_token post api_key
        = Inl (HTTPException (resp_status (post api_key)) ''Could not generate IAM token''))
   \<and> (resp_status (post api_key) = 200 \<and> resp_json (post api_key) = Some (JObj obj)
        \<and> map_of obj ''access_token'' = None \<longrightarrow>
      get_bearer_token_sync post api_key = Inr JNull \<and>
      get_bearer_token post api_key = Inr JNull)"
  by (auto simp: get_bearer_token_sync_def get_bearer_token_def is_success_def get_def Let_def)

theorem token_error_or_null_witness:
  "\<not> is_success (denying_endpoint ''key'')
   \<and> get_bearer_token_sync denying_endpoint ''key'' = Inl (HTTPStatusError 401)
   \<and> get_bearer_token denying_endpoint ''key''
       = Inl (HTTPException 401 ''Could not generate IAM token'')
   \<and> resp_status (empty_object_endpoint ''key'') = 200
   \<and> resp_json (empty_object_endpoint ''key'') = Some (JObj [])
   \<and> map_of ([] :: (string \<times> json) list) ''access_token'' = None
   \<and> get_bearer_token_sync empty_object_endpoint ''key'' = Inr JNull
   \<and> get_bearer_token empty_object_endpoint ''key'' = Inr JNull"
proof -
  have d: "\<not> is_success (denying_endpoint ''key'')"
      "resp_status (denying_endpoint ''key'') = 401"
    by (simp_all add: denying_endpoint_def is_success_def)
  have e: "resp_status (empty_object_endpoint ''key'') = 200"
      "resp_json (empty_object_endpoint ''key'') = Some (JObj [])"
    by (simp_all add: empty_object_endpoint_def ok_response_def)
  show ?thesis
    using token_error_or_null [of denying_endpoint "''key''" "[]"]
      token_error_or_null [of empty_object_endpoint "''key''" "[]"] d e
    by simp
qed

section \<open>The status of a run\<close>

text \<open>
  C2 (evaluation at the failing input): the first status request is answered with the
  body \<^verbatim>\<open>{"status": 1, "message": "done"}\<close>, the second with
  \<^verbatim>\<open>{"status": "completed", "message": "late"}\<close>. The status 1 is not the string
  \<^verbatim>\<open>"running"\<close>; the poller of \<^verbatim>\<open>app.py\<close> stops at once and returns the message of the
  first body, while the poller of \<^verbatim>\<open>fastapi_app.py\<close> sleeps, asks again and returns the
  message of the second body.
\<close>

theorem async_poller_nonstring_status_not_terminal:
  "fetch_run_and_extract_message_sync
     (script [ok_response (JObj [(''status'', JInt 1), (''message'', JStr ''done'')]),
              ok_response (JObj [(''status'', JStr ''completed''), (''message'', JStr ''late'')])])
     (JStr ''r1'') 120 1
     = Some (Inr (Extracted (Some ''done'')
                    (JObj [(''status'', JInt 1), (''message'', JStr ''done'')])), 0)
   \<and> fetch_run_and_extract_message
     (script [ok_response (JObj [(''status'', JInt 1), (''message'', JStr ''done'')]),
              ok_response (JObj [(''status'', JStr ''completed''), (''message'', JStr ''late'')])])
     (JStr ''r1'') 120 1
     = Some (Inr (Extracted (Some ''late'')
                    (JObj [(''status'', JStr ''completed''), (''message'', JStr ''late'')])), 1)"
proof -
  let ?b0 = "JObj [(''status'', JInt 1), (''message'', JStr ''done'')]"
  let ?b1 = "JObj [(''status'', JStr ''completed''), (''message'', JStr ''late'')]"
  let ?g = "script [ok_response ?b0, ok_response ?b1]"
  have g0: "resp_status (?g 0) = 200" "resp_json (?g 0) = Some ?b0"
    by (simp_all add: script_def ok_response_def)
  have g1: "resp_status (?g (Suc 0)) = 200" "resp_json (?g (Suc 0)) = Some ?b1"
    by (simp_all add: script_def ok_response_def)
  have m0: "extract_agent_message_from_run ?b0 = Some ''done''"
    and m1: "extract_agent_message_from_run ?b1 = Some ''late''"
    by (simp_all add: extract_agent_message_from_run_def get_def candidate_keys_def)
  have "poll_sync ?g (JStr ''r1'') 120 1 0 0
          = Some (Inr (Extracted (extract_agent_message_from_run ?b0) ?b0), 0)"
    using g0 by (rule poll_sync_terminal) (simp add: run_status_sync_def get_def py_or_def)
  then have s: "poll_sync ?g (JStr ''r1'') 120 1 0 0
                  = Some (Inr (Extracted (Some ''done'') ?b0), 0)"
    by (simp only: m0)
  have "poll_async ?g (JStr ''r1'') 120 1 0 0
          = poll_async ?g (JStr ''r1'') 120 1 (Suc 0) (0 + 1)"
    using g0 by (rule poll_async_continue)
      (simp_all add: still_running_def run_status_def get_def py_or_def)
  also have "\<dots> = Some (Inr (Extracted (extract_agent_message_from_run ?b1) ?b1), Suc 0)"
    using g1 by (rule poll_async_terminal)
      (simp add: still_running_def run_status_def get_def py_or_def lower_completed)
  finally have a: "poll_async ?g (JStr ''r1'') 120 1 0 0
                     = Some (Inr (Extracted (Some ''late'') ?b1), 1)"
    by (simp only: m1 One_nat_def)
  show ?thesis
    unfolding fetch_run_and_extract_message_sync_def fetch_run_and_extract_message_def
    using s a by simp
qed

text \<open>
  C3 (as stated): the status is the value of the first of the fields \<^verbatim>\<open>status\<close>,
  \<^verbatim>\<open>state\<close>, \<^verbatim>\<open>run_status\<close> that is present, whatever that value is. It is not: in
  \<^verbatim>\<open>{"status": "", "state": "RUNNING"}\<close> the first field present holds the empty string,
  and the status found is that of \<^verbatim>\<open>state\<close>.
\<close>

theorem status_first_present_counterexample:
  "first_present [(''status'', JStr ''''), (''state'', JStr ''RUNNING'')]
     [''status'', ''state'', ''run_status''] = Some (JStr '''')
   \<and> run_status_sync (JObj [(''status'', JStr ''''), (''state'', JStr ''RUNNING'')])
       = JStr ''running''
   \<and> run_status (JObj [(''status'', JStr ''''), (''state'', JStr ''RUNNING'')])
       = JStr ''RUNNING''"
  by (simp add: run_status_sync_def run_status_def get_def py_or_def lower_RUNNING)

text \<open>
  C3 (amended): for every run-body object, the status is found by probing the fields
  \<^verbatim>\<open>status\<close>, \<^verbatim>\<open>state\<close>, \<^verbatim>\<open>run_status\<close> in that order, and the first field whose value
  is truthy wins (an absent field and a value that is null, false, zero or empty are
  passed over). \<^verbatim>\<open>app.py\<close> lowercases the chosen value when it is a string;
  \<^verbatim>\<open>fastapi_app.py\<close> keeps it as it is and lowercases it in its comparison with
  \<^verbatim>\<open>"running"\<close>.
\<close>

theorem status_first_truthy:
  assumes "first_truthy obj [''status'', ''state'', ''run_status''] = Some v"
  shows "run_status_sync (JObj obj) = (case v of JStr s \<Rightarrow> JStr (lower s) | _ \<Rightarrow> v)
         \<and> run_status (JObj obj) = v"
proof -
  have v: "py_or (py_or (get obj ''status'') (get obj ''state'')) (get obj ''run_status'') = v"
    using assms by (rule first_truthy_chain)
  show ?thesis
    by (simp add: run_status_sync_def run_status_def v)
qed

theorem status_first_truthy_witness:
  "first_truthy [(''status'', JNull), (''state'', JStr ''Done'')]
     [''status'', ''state'', ''run_status''] = Some (JStr ''Done'')
   \<and> run_status_sync (JObj [(''status'', JNull), (''state'', JStr ''Done'')]) = JStr ''done''
   \<and> run_status (JObj [(''status'', JNull), (''state'', JStr ''Done'')]) = JStr ''Done''"
proof -
  have h: "first_truthy [(''status'', JNull), (''state'', JStr ''Done'')]
     [''status'', ''state'', ''run_status''] = Some (JStr ''Done'')"
    by (simp add: get_def)
  show ?thesis
    using h status_first_truthy [OF h] by (simp add: lower_Done)
qed

section \<open>The extractor\<close>

text \<open>
  C4 (as stated): in an object whose \<^verbatim>\<open>role\<close> is \<^verbatim>\<open>"assistant"\<close> the extractor takes the
  first of \<^verbatim>\<open>content\<close>, \<^verbatim>\<open>message\<close>, \<^verbatim>\<open>text\<close> that is present, whatever its value, and
  returns it when it is a string. It does not: in
  \<^verbatim>\<open>{"role": "assistant", "content": "", "message": "hi"}\<close> the first field present is
  the empty string, and the extractor returns \<^verbatim>\<open>"hi"\<close>.
\<close>

theorem assistant_first_present_counterexample:
  "get [(''role'', JStr ''assistant''), (''content'', JStr ''''), (''message'', JStr ''hi'')]
     ''role'' = JStr ''assistant''
   \<and> first_present
       [(''role'', JStr ''assistant''), (''content'', JStr ''''), (''message'', JStr ''hi'')]
       [''content'', ''message'', ''text''] = Some (JStr '''')
   \<and> find_message
       (JObj [(''role'', JStr ''assistant''), (''content'', JStr ''''), (''message'', JStr ''hi'')])
       = Some ''hi''"
  by (simp add: get_def py_or_def)

text \<open>
  C4 (amended): for every JSON object whose \<^verbatim>\<open>role\<close> field equals \<^verbatim>\<open>"assistant"\<close>, the
  extractor selects among the fields \<^verbatim>\<open>content\<close>, \<^verbatim>\<open>message\<close>, \<^verbatim>\<open>text\<close> the first one
  whose value is truthy; if that value is a string it is returned directly, and if it is
  an object or an array the extractor recurses into it and returns whatever that
  recursion finds.
\<close>

theorem assistant_first_truthy:
  assumes "get obj ''role'' = JStr ''assistant''"
    and "first_truthy obj [''content'', ''message'', ''text''] = Some c"
  shows "(\<forall>s. c = JStr s \<longrightarrow> find_message (JObj obj) = Some s) \<and>
         ((\<exists>x. c = JObj x) \<or> (\<exists>x. c = JArr x) \<longrightarrow> find_message (JObj obj) = find_message c)"
  using assms(1) first_truthy_chain [OF assms(2)]
  by (auto simp: find_message_object simp del: find_message.simps)

theorem assistant_first_truthy_witness:
  "get [(''role'', JStr ''assistant''), (''content'', JNull),
        (''message'', JObj [(''text'', JStr ''hi'')])] ''role'' = JStr ''assistant''
   \<and> first_truthy [(''role'', JStr ''assistant''), (''content'', JNull),
        (''message'', JObj [(''text'', JStr ''hi'')])] [''content'', ''message'', ''text'']
       = Some (JObj [(''text'', JStr ''hi'')])
   \<and> find_message (JObj [(''role'', JStr ''assistant''), (''content'', JNull),
        (''message'', JObj [(''text'', JStr ''hi'')])])
       = find_message (JObj [(''text'', JStr ''hi'')])
   \<and> find_message (JObj [(''text'', JStr ''hi'')]) = Some ''hi''"
proof -
  let ?obj = "[(''role'', JStr ''assistant''), (''content'', JNull),
               (''message'', JObj [(''text'', JStr ''hi'')])]"
  have r: "get ?obj ''role'' = JStr ''assistant''"
    by (simp add: get_def)
  have c: "first_truthy ?obj [''content'', ''message'', ''text'']
             = Some (JObj [(''text'', JStr ''hi'')])"
    by (simp add: get_def)
  have m: "find_message (JObj [(''text'', JStr ''hi'')]) = Some ''hi''"
    by (simp add: get_def candidate_keys_def)
  from assistant_first_truthy [OF r c]
  have "find_message (JObj ?obj) = find_message (JObj [(''text'', JStr ''hi'')])"
    by blast
  with r c m show ?thesis by blast
qed

text \<open>
  C5: for every JSON value that holds, anywhere in its nested structure, no object whose
  \<^verbatim>\<open>role\<close> field equals \<^verbatim>\<open>"assistant"\<close> and no object with one of the candidate keys
  \<^verbatim>\<open>message\<close>, \<^verbatim>\<open>messages\<close>, \<^verbatim>\<open>content\<close>, \<^verbatim>\<open>output\<close>, \<^verbatim>\<open>text\<close>, \<^verbatim>\<open>result\<close>, the
  extractor returns no result.
\<close>

theorem extract_hint_free_None:
  "hint_free v \<Longrightarrow> extract_agent_message_from_run v = None"
  unfolding extract_agent_message_from_run_def
proof (induction v rule: find_message.induct)
  case (1 obj)
  from "1.prems" have role: "get obj ''role'' \<noteq> JStr ''assistant''"
    and keys: "\<And>k. k \<in> set candidate_keys \<Longrightarrow> map_of obj k = None"
    and vals: "\<And>v. v \<in> set (map snd obj) \<Longrightarrow> hint_free v"
    by auto
  have p: "probe_keys find_message obj candidate_keys = None"
    using keys by (rule probe_keys_absent)
  have "first_found find_message (map snd obj) = None"
  proof (rule first_found_None)
    fix x assume x: "x \<in> set (map snd obj)"
    show "find_message x = None"
      using role p x vals [OF x] by (intro "1.IH"(4)) simp_all
  qed
  then show ?case using role p by simp
next
  case (2 xs)
  then show ?case by (simp add: first_found_None)
qed simp_all

theorem extract_hint_free_None_witness:
  "hint_free (JObj [(''id'', JInt 7), (''items'', JArr [JObj [(''name'', JStr ''message'')], JNull])])
   \<and> extract_agent_message_from_run
       (JObj [(''id'', JInt 7), (''items'', JArr [JObj [(''name'', JStr ''message'')], JNull])])
       = None"
proof -
  have h: "hint_free
             (JObj [(''id'', JInt 7), (''items'', JArr [JObj [(''name'', JStr ''message'')], JNull])])"
    by (simp add: get_def candidate_keys_def)
  from h extract_hint_free_None [OF h] show ?thesis by (rule conjI)
qed

text \<open>
  C8: the extractor terminates on every JSON value, and its result is a function of its
  input. The recursion depth is bounded by the size of the value: each recursive call is
  on a value held inside the current one, so a budget of \<open>size v + 1\<close> nested calls is
  never used up, and the run returns the one value \<open>extract_agent_message_from_run v\<close>.
\<close>

theorem find_message_terminates:
  "find_message_fuel (Suc (size v)) v = Some (extract_agent_message_from_run v)"
  unfolding extract_agent_message_from_run_def
  by (rule find_message_fuel_enough) simp

text \<open>
  C10 (as stated): an object whose \<^verbatim>\<open>role\<close> is \<^verbatim>\<open>"assistant"\<close> and in which none of
  \<^verbatim>\<open>content\<close>, \<^verbatim>\<open>message\<close>, \<^verbatim>\<open>text\<close> is truthy falls through to the candidate keys and
  to the remaining values. It does not when \<^verbatim>\<open>text\<close> holds an empty list: in
  \<^verbatim>\<open>{"role": "assistant", "text": [], "messages": [{"content": "hi"}]}\<close> the extractor
  searches the empty list and returns \<^verbatim>\<open>None\<close>, while the two loops would find \<^verbatim>\<open>"hi"\<close>.
\<close>

theorem assistant_falsy_container_counterexample:
  "get [(''role'', JStr ''assistant''), (''text'', JArr []),
        (''messages'', JArr [JObj [(''content'', JStr ''hi'')]])] ''role'' = JStr ''assistant''
   \<and> \<not> truthy (get [(''role'', JStr ''assistant''), (''text'', JArr []),
        (''messages'', JArr [JObj [(''content'', JStr ''hi'')]])] ''content'')
   \<and> \<not> truthy (get [(''role'', JStr ''assistant''), (''text'', JArr []),
        (''messages'', JArr [JObj [(''content'', JStr ''hi'')]])] ''message'')
   \<and> \<not> truthy (get [(''role'', JStr ''assistant''), (''text'', JArr []),
        (''messages'', JArr [JObj [(''content'', JStr ''hi'')]])] ''text'')
   \<and> find_message (JObj [(''role'', JStr ''assistant''), (''text'', JArr []),
        (''messages'', JArr [JObj [(''content'', JStr ''hi'')]])]) = None
   \<and> fall_through [(''role'', JStr ''assistant''), (''text'', JArr []),
        (''messages'', JArr [JObj [(''content'', JStr ''hi'')]])] = Some ''hi''"
  by (simp add: get_def py_or_def fall_through_def candidate_keys_def)

text \<open>
  C10 (amended): for every JSON object whose \<^verbatim>\<open>role\<close> field equals \<^verbatim>\<open>"assistant"\<close>, in
  which neither \<^verbatim>\<open>content\<close> nor \<^verbatim>\<open>message\<close> holds a truthy value and \<^verbatim>\<open>text\<close> is absent
  or holds null, false or zero, the extractor does not give up at that node: its result
  is that of probing the ordered candidate keys and then recursing into all values of
  the same object.
\<close>

theorem assistant_falls_through:
  assumes "get obj ''role'' = JStr ''assistant''"
    and "\<not> truthy (get obj ''content'')" and "\<not> truthy (get obj ''message'')"
    and "get obj ''text'' \<in> {JNull, JBool False, JInt 0, JFloat 0}"
  shows "find_message (JObj obj) = fall_through obj"
  using assms by (auto simp: find_message_object py_or_def simp del: find_message.simps)

theorem assistant_falls_through_witness:
  "get [(''role'', JStr ''assistant''), (''content'', JNull),
        (''data'', JObj [(''text'', JStr ''hi'')])] ''role'' = JStr ''assistant''
   \<and> find_message (JObj [(''role'', JStr ''assistant''), (''content'', JNull),
        (''data'', JObj [(''text'', JStr ''hi'')])])
       = fall_through [(''role'', JStr ''assistant''), (''content'', JNull),
        (''data'', JObj [(''text'', JStr ''hi'')])]
   \<and> fall_through [(''role'', JStr ''assistant''), (''content'', JNull),
        (''data'', JObj [(''text'', JStr ''hi'')])] = Some ''hi''"
proof -
  let ?obj = "[(''role'', JStr ''assistant''), (''content'', JNull),
               (''data'', JObj [(''text'', JStr ''hi'')])]"
  have r: "get ?obj ''role'' = JStr ''assistant''"
    and c: "\<not> truthy (get ?obj ''content'')" and m: "\<not> truthy (get ?obj ''message'')"
    and t: "get ?obj ''text'' \<in> {JNull, JBool False, JInt 0, JFloat 0}"
    by (simp_all add: get_def)
  have f: "fall_through ?obj = Some ''hi''"
    by (simp add: fall_through_def get_def candidate_keys_def)
  from r assistant_falls_through [OF r c m t] f show ?thesis by blast
qed

section \<open>The poller\<close>

text \<open>
  C6: if the first three status requests are answered with status 200 and the bodies
  \<^verbatim>\<open>{"status":"running"}\<close>, \<^verbatim>\<open>{"status":"running"}\<close>, \<^verbatim>\<open>{"status":"completed"}\<close>, in that
  order, and the maximum wait exceeds two poll intervals (a poll interval being a length
  of time, not negative), then both pollers sleep exactly twice and return the
  extractor's result on the third body together with that body.
\<close>

theorem poller_running_running_completed:
  assumes r0: "resp_status (http_get 0) = 200"
      "resp_json (http_get 0) = Some (JObj [(''status'', JStr ''running'')])"
    and r1: "resp_status (http_get 1) = 200"
      "resp_json (http_get 1) = Some (JObj [(''status'', JStr ''running'')])"
    and r2: "resp_status (http_get 2) = 200"
      "resp_json (http_get 2) = Some (JObj [(''status'', JStr ''completed'')])"
    and p: "0 \<le> poll_interval" and m: "2 * poll_interval < max_wait_seconds"
  shows "fetch_run_and_extract_message_sync http_get run_id max_wait_seconds poll_interval
           = Some (Inr (Extracted
                          (extract_agent_message_from_run (JObj [(''status'', JStr ''completed'')]))
                          (JObj [(''status'', JStr ''completed'')])), 2)
       \<and> fetch_run_and_extract_message http_get run_id max_wait_seconds poll_interval
           = Some (Inr (Extracted
                          (extract_agent_message_from_run (JObj [(''status'', JStr ''completed'')]))
                          (JObj [(''status'', JStr ''completed'')])), 2)"
proof -
  let ?run = "JObj [(''status'', JStr ''running'')]"
  let ?fin = "JObj [(''status'', JStr ''completed'')]"
  let ?res = "Some (Inr (Extracted (extract_agent_message_from_run ?fin) ?fin), Suc (Suc 0))"
  have e0: "0 < max_wait_seconds" and e1: "0 + poll_interval < max_wait_seconds"
    using p m by linarith+
  have r1': "resp_status (http_get (Suc 0)) = 200" "resp_json (http_get (Suc 0)) = Some ?run"
    using r1 by simp_all
  have r2': "resp_status (http_get (Suc (Suc 0))) = 200"
      "resp_json (http_get (Suc (Suc 0))) = Some ?fin"
    using r2 by (simp_all add: numeral_2_eq_2)
  have s_run: "run_status_sync ?run = JStr ''running''"
    by (simp add: run_status_sync_def get_def py_or_def lower_running)
  have s_fin: "run_status_sync ?fin \<noteq> JStr ''running''"
    by (simp add: run_status_sync_def get_def py_or_def lower_completed)
  have a_run: "still_running (run_status ?run)"
    by (simp add: run_status_def still_running_def get_def py_or_def lower_running)
  have a_fin: "\<not> still_running (run_status ?fin)"
    by (simp add: run_status_def still_running_def get_def py_or_def lower_completed)
  have "poll_sync http_get run_id max_wait_seconds poll_interval 0 0
          = poll_sync http_get run_id max_wait_seconds poll_interval (Suc 0) (0 + poll_interval)"
    using r0 s_run e0 p by (rule poll_sync_continue)
  also have "\<dots> = poll_sync http_get run_id max_wait_seconds poll_interval (Suc (Suc 0))
                     (0 + poll_interval + poll_interval)"
    using r1' s_run e1 p by (rule poll_sync_continue)
  also have "\<dots> = ?res"
    using r2' s_fin by (rule poll_sync_terminal)
  finally have s: "poll_sync http_get run_id max_wait_seconds poll_interval 0 0 = ?res" .
  have "poll_async http_get run_id max_wait_seconds poll_interval 0 0
          = poll_async http_get run_id max_wait_seconds poll_interval (Suc 0) (0 + poll_interval)"
    using r0 a_run e0 by (rule poll_async_continue)
  also have "\<dots> = poll_async http_get run_id max_wait_seconds poll_interval (Suc (Suc 0))
                     (0 + poll_interval + poll_interval)"
    using r1' a_run e1 by (rule poll_async_continue)
  also have "\<dots> = ?res"
    using r2' a_fin by (rule poll_async_terminal)
  finally have a: "poll_async http_get run_id max_wait_seconds poll_interval 0 0 = ?res" .
  show ?thesis
    unfolding fetch_run_and_extract_message_sync_def fetch_run_and_extract_message_def
    using s a by (simp add: numeral_2_eq_2)
qed

theorem poller_running_running_completed_witness:
  "resp_status (script [ok_response (JObj [(''status'', JStr ''running'')]),
                        ok_response (JObj [(''status'', JStr ''running'')]),
                        ok_response (JObj [(''status'', JStr ''completed'')])] 2) = 200
   \<and> (0::real) \<le> 1 / 2 \<and> 2 * (1 / 2) < (5::real)
   \<and> fetch_run_and_extract_message_sync
       (script [ok_response (JObj [(''status'', JStr ''running'')]),
                ok_response (JObj [(''status'', JStr ''running'')]),
                ok_response (JObj [(''status'', JStr ''completed'')])])
       (JStr ''r1'') 5 (1 / 2)
       = Some (Inr (Extracted None (JObj [(''status'', JStr ''completed'')])), 2)
   \<and> fetch_run_and_extract_message
       (script [ok_response (JObj [(''status'', JStr ''running'')]),
                ok_response (JObj [(''status'', JStr ''running'')]),
                ok_response (JObj [(''status'', JStr ''completed'')])])
       (JStr ''r1'') 5 (1 / 2)
       = Some (Inr (Extracted None (JObj [(''status'', JStr ''completed'')])), 2)"
proof -
  let ?g = "script [ok_response (JObj [(''status'', JStr ''running'')]),
                    ok_response (JObj [(''status'', JStr ''running'')]),
                    ok_response (JObj [(''status'', JStr ''completed'')])]"
  have g0: "resp_status (?g 0) = 200"
      "resp_json (?g 0) = Some (JObj [(''status'', JStr ''running'')])"
    and g1: "resp_status (?g 1) = 200"
      "resp_json (?g 1) = Some (JObj [(''status'', JStr ''running'')])"
    and g2: "resp_status (?g 2) = 200"
      "resp_json (?g 2) = Some (JObj [(''status'', JStr ''completed'')])"
    by (simp_all add: script_def ok_response_def)
  have p: "(0::real) \<le> 1 / 2" and m: "2 * (1 / 2) < (5::real)"
    by simp_all
  have x: "extract_agent_message_from_run (JObj [(''status'', JStr ''completed'')]) = None"
    by (simp add: extract_agent_message_from_run_def get_def candidate_keys_def)
  show ?thesis
    using poller_running_running_completed [OF g0 g1 g2 p m, of "JStr ''r1''"] g2(1) p m
    by (simp only: x simp_thms)
qed

text \<open>
  C7: if a status request is answered with status 200 and the body
  \<^verbatim>\<open>{"status":"Running"}\<close> when the elapsed wait has already reached the maximum wait,
  both pollers return at once, without a further sleep, the timeout outcome that carries
  this last-seen body.
\<close>

theorem poller_timeout_when_elapsed:
  assumes "resp_status (http_get n) = 200"
    and "resp_json (http_get n) = Some (JObj [(''status'', JStr ''Running'')])"
    and "max_wait_seconds \<le> elapsed"
  shows "poll_sync http_get run_id max_wait_seconds poll_interval n elapsed
           = Some (Inr (TimedOut run_id max_wait_seconds (JObj [(''status'', JStr ''Running'')])), n)
       \<and> poll_async http_get run_id max_wait_seconds poll_interval n elapsed
           = Some (Inr (TimedOut run_id max_wait_seconds (JObj [(''status'', JStr ''Running'')])), n)"
proof
  have "run_status_sync (JObj [(''status'', JStr ''Running'')]) = JStr ''running''"
    by (simp add: run_status_sync_def get_def py_or_def lower_Running)
  with assms(1,2)
  show "poll_sync http_get run_id max_wait_seconds poll_interval n elapsed
          = Some (Inr (TimedOut run_id max_wait_seconds (JObj [(''status'', JStr ''Running'')])), n)"
    using assms(3) by (rule poll_sync_timeout)
  have "still_running (run_status (JObj [(''status'', JStr ''Running'')]))"
    by (simp add: run_status_def still_running_def get_def py_or_def lower_Running)
  with assms(1,2)
  show "poll_async http_get run_id max_wait_seconds poll_interval n elapsed
          = Some (Inr (TimedOut run_id max_wait_seconds (JObj [(''status'', JStr ''Running'')])), n)"
    using assms(3) by (rule poll_async_timeout)
qed

theorem poller_timeout_when_elapsed_witness:
  "resp_status (script [ok_response (JObj [(''status'', JStr ''Running'')])] 0) = 200
   \<and> (0::real) \<le> 0
   \<and> fetch_run_and_extract_message_sync
       (script [ok_response (JObj [(''status'', JStr ''Running'')])]) (JStr ''r1'') 0 1
       = Some (Inr (TimedOut (JStr ''r1'') 0 (JObj [(''status'', JStr ''Running'')])), 0)
   \<and> fetch_run_and_extract_message
       (script [ok_response (JObj [(''status'', JStr ''Running'')])]) (JStr ''r1'') 0 1
       = Some (Inr (TimedOut (JStr ''r1'') 0 (JObj [(''status'', JStr ''Running'')])), 0)"
proof -
  let ?g = "script [ok_response (JObj [(''status'', JStr ''Running'')])]"
  have g: "resp_status (?g 0) = 200"
      "resp_json (?g 0) = Some (JObj [(''status'', JStr ''Running'')])"
    by (simp_all add: script_def ok_response_def)
  have e: "(0::real) \<le> 0" by simp
  show ?thesis
    unfolding fetch_run_and_extract_message_sync_def fetch_run_and_extract_message_def
    using poller_timeout_when_elapsed
        [where http_get = "?g" and n = 0, OF g e, of "JStr ''r1''" 1] g(1) e
    by simp
qed

section \<open>The session\<close>

lemma start_payload:
  "start_orchestrate_run_sync post m a tid tok = (payload, r) \<Longrightarrow> truthy tid
     \<Longrightarrow> carries_thread tid payload"
  by (auto simp: start_orchestrate_run_sync_def carries_thread_def Let_def)

lemma send_callback_keeps_thread:
  assumes "truthy (thread_id st)"
  shows "\<exists>res. send_callback cfg w st = Some res \<and> thread_id (state res) = thread_id st
           \<and> (\<forall>p. launched res = Some p \<longrightarrow> carries_thread (thread_id st) p)"
proof -
  have poll: "fetch_run_and_extract_message_sync (runs_get w) rid 5 (1 / 2) \<noteq> None" for rid
    using poll_sync_returns [of "1 / 2" "runs_get w" rid 5 0 0]
    unfolding fetch_run_and_extract_message_sync_def by auto
  show ?thesis
    unfolding send_callback_def Let_def using assms
    by (auto simp: poll split: sum.splits prod.splits json.splits option.splits
        dest: start_payload)
qed

text \<open>
  C9: in every conversation that starts from a session state whose \<^verbatim>\<open>thread_id\<close> is set
  (truthy), every send returns, the \<^verbatim>\<open>thread_id\<close> of the final state is the one that
  was set, whatever thread identifiers the run responses carry, and every launch request
  of the conversation names that thread.
\<close>

theorem thread_id_never_overwritten:
  assumes "truthy (thread_id st)"
  shows "\<exists>sent st'. conversation cfg ts st = Some (sent, st') \<and> thread_id st' = thread_id st
           \<and> (\<forall>p \<in> set sent. carries_thread (thread_id st) p)"
  using assms
proof (induction ts arbitrary: st)
  case Nil
  then show ?case by simp
next
  case (Cons t ts)
  let ?st0 = "st\<lparr>message_input := typed t\<rparr>"
  from Cons.prems have t0: "truthy (thread_id ?st0)" by simp
  from send_callback_keeps_thread [OF t0, of cfg "env t"]
  obtain res where res: "send_callback cfg (env t) ?st0 = Some res"
      "thread_id (state res) = thread_id st"
      "\<And>p. launched res = Some p \<Longrightarrow> carries_thread (thread_id st) p"
    by auto
  let ?st1 = "(state res)\<lparr>last_error := []\<rparr>"
  have t1: "truthy (thread_id ?st1)" using res(2) Cons.prems by simp
  from Cons.IH [OF t1] obtain sent st' where rest: "conversation cfg ts ?st1 = Some (sent, st')"
      "thread_id st' = thread_id st" "\<forall>p \<in> set sent. carries_thread (thread_id st) p"
    using res(2) by auto
  show ?case using res rest by (auto split: option.splits)
qed

theorem thread_id_never_overwritten_witness:
  "truthy (thread_id example_session)
   \<and> (\<exists>sent st'. conversation example_config [example_turn, example_turn] example_session
                      = Some (sent, st')
         \<and> thread_id st' = JStr ''t1''
         \<and> (\<forall>p \<in> set sent. carries_thread (JStr ''t1'') p))"
proof -
  have h: "truthy (thread_id example_session)"
    by (simp add: example_session_def)
  have t: "thread_id example_session = JStr ''t1''"
    by (simp add: example_session_def)
  from thread_id_never_overwritten [OF h, of example_config "[example_turn, example_turn]"]
  show ?thesis
    unfolding t using h by simp
qed

end
